theory Spec2Isabelle
  imports Complex_Main "HOL-Library.Multiset"
begin

section \<open>Domain model (data\_classes.py)\<close>

text \<open>
  The three dataclasses. A Python \<^verbatim>\<open>@dataclass\<close> without \<^verbatim>\<open>eq=False\<close> gets a
  generated \<^verbatim>\<open>__eq__\<close> that compares all fields, which is exactly equality of HOL
  records. \<^verbatim>\<open>lead_time_minutes\<close> is a float in the source; it is only stored and
  compared, so it is a real number here (NaN is left out). Instants are integers
  (a position on the time line), so comparing two of them never fails.
\<close>

record StopPoint =
  stop_point_ref :: string
  prefix :: "string option"
  suffix :: "string option"

record Station =
  name :: string
  lead_time_minutes :: real
  stop_points :: "StopPoint list"

type_synonym datetime = int

record Departure =
  line_number :: string
  destination :: "string option"
  platform :: "string option"
  station :: Station
  stop_point :: StopPoint
  mode :: "string option"
  background_color :: string
  text_color :: string
  planned_time :: datetime
  estimated_time :: "datetime option"

text \<open>Every exception class that the modelled code can raise.\<close>

datatype exn =
    AttributeError | TypeError | ValueError | UnboundLocalError | IndexError | KeyError
  | TclError | ParseError | FileNotFoundError | ConnectionError


section \<open>String helpers of the Python standard library\<close>

text \<open>\<^verbatim>\<open>s.startswith(p)\<close>.\<close>

definition startswith :: "string \<Rightarrow> string \<Rightarrow> bool" where
  "startswith s p = (take (length p) s = p)"

text \<open>\<^verbatim>\<open>s.split(" ")\<close>: splitting at every single blank; the result is never empty,
  and consecutive blanks give empty words.\<close>

fun split_sp :: "string \<Rightarrow> string list" where
  "split_sp [] = [[]]"
| "split_sp (c # cs) =
     (if c = CHR '' '' then [] # split_sp cs
      else (case split_sp cs of w # ws \<Rightarrow> (c # w) # ws | [] \<Rightarrow> [[c]]))"

text \<open>\<^verbatim>\<open>" ".join(ws)\<close>.\<close>

fun join_sp :: "string list \<Rightarrow> string" where
  "join_sp [] = []"
| "join_sp [w] = w"
| "join_sp (w # ws) = w @ '' '' @ join_sp ws"

text \<open>Lower-casing of the ASCII letters, and the substring test; together they are
  \<^verbatim>\<open>str.contains('kvv', case=False)\<close> on an ASCII cell.\<close>

definition lower_char :: "char \<Rightarrow> char" where
  "lower_char c =
     (let n = (of_char c :: nat) in if 65 \<le> n \<and> n \<le> 90 then char_of (n + 32) else c)"

fun contains :: "string \<Rightarrow> string \<Rightarrow> bool" where
  "contains [] p = (p = [])"
| "contains (c # s) p = (startswith (c # s) p \<or> contains s p)"


section \<open>Windows and their entries (gui.py)\<close>

text \<open>
  A window, as far as the functions below read it: its station, its capacity, its entry
  widgets (the column header at index 0, then one entry per slot) and the colour section
  of the configuration, a dictionary. The station field is called \<open>window_station\<close>
  because \<open>station\<close> is already the field of a departure. An entry widget is the
  background of its frame, its icon label and its three text variables.
\<close>

datatype icon_label = NoImage | Image "string option" string string string | Destroyed

record DepartureEntry =
  frame_background :: string
  line_icon_label :: icon_label
  destination_var :: "string option"
  platform_var :: string
  time_text_var :: string

record Window =
  window_station :: Station
  number_of_departure_entries :: nat
  departure_entries :: "DepartureEntry list"
  colors :: "string \<rightharpoonup> string"


section \<open>Stop-point deduplication (helper\_functions.py, get\_all\_used\_stoppoints)\<close>

text \<open>The inner loop: \<^verbatim>\<open>if stop_point not in all_stop_points: append\<close>. The test
  \<^verbatim>\<open>not in\<close> uses the dataclass equality, that is, all three fields.\<close>

fun add_stop_points :: "StopPoint list \<Rightarrow> StopPoint list \<Rightarrow> StopPoint list" where
  "add_stop_points all_stop_points [] = all_stop_points"
| "add_stop_points all_stop_points (sp # sps) =
     add_stop_points
       (if sp \<notin> set all_stop_points then all_stop_points @ [sp] else all_stop_points) sps"

text \<open>The outer loop runs over the stations of the windows, in the order of the windows.\<close>

fun collect_stop_points :: "StopPoint list \<Rightarrow> Station list \<Rightarrow> StopPoint list" where
  "collect_stop_points all_stop_points [] = all_stop_points"
| "collect_stop_points all_stop_points (st # sts) =
     collect_stop_points (add_stop_points all_stop_points (stop_points st)) sts"

definition get_all_used_stoppoints :: "Window list \<Rightarrow> StopPoint list" where
  "get_all_used_stoppoints windows = collect_stop_points [] (map window_station windows)"


section \<open>Line colours (helper\_functions.py, get\_line\_color)\<close>

text \<open>
  One row of the colour table, with the four columns the code reads. A cell of the two
  text columns the code compares may be missing (pandas NaN), hence the options.
  The table file itself is read by \<^verbatim>\<open>pd.read_csv\<close>, which raises when the file is
  not there: the function below takes the outcome of that read.
\<close>

record row =
  shortOperatorName :: "string option"
  lineName :: "string option"
  backgroundColor :: string
  textColor :: string

definition is_kvv :: "row \<Rightarrow> bool" where
  "is_kvv r =
     (case shortOperatorName r of None \<Rightarrow> False
      | Some s \<Rightarrow> contains (map lower_char s) ''kvv'')"

definition rows_named :: "string \<Rightarrow> row list \<Rightarrow> row list" where
  "rows_named line_name df = filter (\<lambda>r. lineName r = Some line_name) df"

definition get_line_color ::
  "string \<Rightarrow> exn + row list \<Rightarrow> string \<times> string \<Rightarrow> bool \<Rightarrow> exn + string \<times> string" where
  "get_line_color line_name csv fallback_colors SEV_lines_use_normal_line_icon_colors =
     (if startswith line_name ''ICE'' \<or> startswith line_name ''IC''
      then Inr (''#EC0016'', ''#FFFFFF'')
      else if startswith line_name ''FLX''
      then Inr (''#97d700'', ''#FFFFFF'')
      else
        (case csv of
           Inl e \<Rightarrow> Inl e
         | Inr df \<Rightarrow>
            (let filtered_df = filter is_kvv df in
             (case rows_named line_name filtered_df of
                r # _ \<Rightarrow> Inr (backgroundColor r, textColor r)
              | [] \<Rightarrow>
                 (if SEV_lines_use_normal_line_icon_colors \<and> take 3 line_name = ''SEV''
                  then
                    (case rows_named (drop 3 line_name) filtered_df of
                       r # _ \<Rightarrow> Inr (backgroundColor r, textColor r)
                     | [] \<Rightarrow> Inr fallback_colors)
                  else Inr fallback_colors)))))"


section \<open>Protocol decoder (helper\_functions.py, get\_departures\_from\_xml)\<close>

text \<open>
  The parsed response. The decoder reads the document only through
  \<^verbatim>\<open>findall('.//tri:StopEventResult')\<close> and, below each result, through \<^verbatim>\<open>find\<close> with
  eight fixed paths; a document is therefore the list of its result nodes, each with
  the outcome of these look-ups. \<^verbatim>\<open>find\<close> gives \<^verbatim>\<open>None\<close> (\<open>NotFound\<close>) or an element,
  whose \<^verbatim>\<open>.text\<close> is a string or \<^verbatim>\<open>None\<close>.
\<close>

datatype found = NotFound | Element "string option"

record stop_event =
  TimetabledTime :: found
  EstimatedTime :: found
  PublishedLineName :: found
  DestinationText :: found
  PlannedBay :: found
  PtMode :: found

record stop_event_result =
  StopPointRef :: found
  StopEvent :: "stop_event option"

type_synonym tree = "stop_event_result list"

text \<open>\<^verbatim>\<open>node.text\<close>: an attribute access on \<^verbatim>\<open>None\<close> raises AttributeError.\<close>

fun text_of :: "found \<Rightarrow> exn + string option" where
  "text_of NotFound = Inl AttributeError"
| "text_of (Element t) = Inr t"

text \<open>
  \<^verbatim>\<open>datetime.fromisoformat(node.text)\<close>. The parser of the standard library is a
  parameter: \<open>None\<close> stands for its ValueError. On \<^verbatim>\<open>None\<close> it raises TypeError.
\<close>

definition time_of :: "(string \<Rightarrow> datetime option) \<Rightarrow> found \<Rightarrow> exn + datetime" where
  "time_of fromisoformat node =
     (case text_of node of
        Inl e \<Rightarrow> Inl e
      | Inr None \<Rightarrow> Inl TypeError
      | Inr (Some s) \<Rightarrow>
         (case fromisoformat s of None \<Rightarrow> Inl ValueError | Some t \<Rightarrow> Inr t))"

text \<open>
  The two \<^verbatim>\<open>if\<close> statements that compute \<^verbatim>\<open>line_number\<close> from the words of the
  published line name. The variable is a local of the function, so it keeps the value
  of the previous record until it is assigned; \<open>None\<close> is an unbound variable.
  \<^verbatim>\<open>"".join(w)\<close> of a single string \<open>w\<close> is \<open>w\<close>; \<^verbatim>\<open>words[1:2]\<close> is the second word
  or nothing.
\<close>

definition assign_line_number :: "string option \<Rightarrow> string list \<Rightarrow> string option" where
  "assign_line_number line_number_before words =
     (let after_first_if =
            (if length words > 1 \<and> words ! 1 = ''SEV''
             then Some (''SEV'' @ last words) else line_number_before)
      in if length words > 0 then
           (if last words = ''InterCityExpress''
            then Some (''ICE'' @ concat (take 1 (drop 1 words)))
            else if last words = ''InterCity''
            then Some (''IC'' @ concat (take 1 (drop 1 words)))
            else if last words = ''Flixbus''
            then Some (''FLX'' @ last words)
            else Some (last words))
         else after_first_if)"

definition format_platform :: "string \<Rightarrow> string" where
  "format_platform platform_text =
     (let words = split_sp platform_text
      in if length words > 1 then join_sp (tl words) else platform_text)"

text \<open>\<^verbatim>\<open>try: platform = format_platform(find(...).text) except AttributeError: None\<close>;
  a missing element and an element without text both end in the handler.\<close>

definition platform_of :: "found \<Rightarrow> string option" where
  "platform_of node =
     (case text_of node of
        Inl e \<Rightarrow> None
      | Inr None \<Rightarrow> None
      | Inr (Some s) \<Rightarrow> Some (format_platform s))"

text \<open>
  The two nested loops that look the stop point up. They assign the two variables
  \<^verbatim>\<open>departure_station\<close> and \<^verbatim>\<open>departure_stop_point\<close> together at every match, so
  the last match stays; without a match the variables keep what they had.
\<close>

type_synonym binding = "(Station \<times> StopPoint) option"

fun scan_stop_points :: "string \<Rightarrow> Station \<Rightarrow> binding \<Rightarrow> StopPoint list \<Rightarrow> binding" where
  "scan_stop_points ref st b [] = b"
| "scan_stop_points ref st b (sp # sps) =
     scan_stop_points ref st (if stop_point_ref sp = ref then Some (st, sp) else b) sps"

fun scan_stations :: "string \<Rightarrow> binding \<Rightarrow> Station list \<Rightarrow> binding" where
  "scan_stations ref b [] = b"
| "scan_stations ref b (st # sts) =
     scan_stations ref (scan_stop_points ref st b (stop_points st)) sts"

text \<open>The locals of the function that live across the records of one document.\<close>

record locals =
  line_number_var :: "string option"
  binding_var :: binding
  departures :: "Departure list"

text \<open>
  The body of the loop for one result node. Nothing in it is caught but the two
  \<^verbatim>\<open>try\<close> blocks of the estimated time and the platform, so every other failure
  leaves the function (\<open>Inl\<close>).
\<close>

definition decode_event ::
  "(string \<Rightarrow> datetime option) \<Rightarrow> exn + row list \<Rightarrow> string \<Rightarrow> Station list \<Rightarrow>
   string \<times> string \<Rightarrow> bool \<Rightarrow> locals \<Rightarrow> stop_event_result \<Rightarrow> exn + locals" where
  "decode_event fromisoformat csv ref all_stations fallback sev_flag st event_result =
     (case text_of (StopPointRef event_result) of
        Inl e \<Rightarrow> Inl e
      | Inr None \<Rightarrow> Inl AttributeError
      | Inr (Some ref_text) \<Rightarrow>
         if \<not> startswith ref_text ref then Inr st
         else
          (case StopEvent event_result of
             None \<Rightarrow> Inl AttributeError
           | Some event \<Rightarrow>
          (case time_of fromisoformat (TimetabledTime event) of
             Inl e \<Rightarrow> Inl e
           | Inr planned \<Rightarrow>
          (let estimated =
                 (case time_of fromisoformat (EstimatedTime event) of
                    Inl e \<Rightarrow> None | Inr t \<Rightarrow> Some t)
           in
          (case text_of (PublishedLineName event) of
             Inl e \<Rightarrow> Inl e
           | Inr None \<Rightarrow> Inl AttributeError
           | Inr (Some published_line_name) \<Rightarrow>
          (let ln = assign_line_number (line_number_var st) (split_sp published_line_name)
           in
          (case text_of (DestinationText event) of
             Inl e \<Rightarrow> Inl e
           | Inr dest \<Rightarrow>
          (let plat = platform_of (PlannedBay event);
               b = scan_stations ref (binding_var st) all_stations
           in
          (case text_of (PtMode event) of
             Inl e \<Rightarrow> Inl e
           | Inr m \<Rightarrow>
          (case ln of
             None \<Rightarrow> Inl UnboundLocalError
           | Some number \<Rightarrow>
          (case get_line_color number csv fallback sev_flag of
             Inl e \<Rightarrow> Inl e
           | Inr (bg, fg) \<Rightarrow>
          (case b of
             None \<Rightarrow> Inl UnboundLocalError
           | Some (departure_station, departure_stop_point) \<Rightarrow>
               Inr \<lparr>line_number_var = ln, binding_var = b,
                    departures = departures st @
                      [\<lparr>line_number = number, destination = dest, platform = plat,
                        station = departure_station, stop_point = departure_stop_point,
                        mode = m, background_color = bg, text_color = fg,
                        planned_time = planned, estimated_time = estimated\<rparr>]\<rparr>))))))))))))"

fun decode_loop ::
  "(string \<Rightarrow> datetime option) \<Rightarrow> exn + row list \<Rightarrow> string \<Rightarrow> Station list \<Rightarrow>
   string \<times> string \<Rightarrow> bool \<Rightarrow> locals \<Rightarrow> tree \<Rightarrow> exn + locals" where
  "decode_loop fromisoformat csv ref all_stations fallback sev_flag st [] = Inr st"
| "decode_loop fromisoformat csv ref all_stations fallback sev_flag st (er # ers) =
     (case decode_event fromisoformat csv ref all_stations fallback sev_flag st er of
        Inl e \<Rightarrow> Inl e
      | Inr st' \<Rightarrow> decode_loop fromisoformat csv ref all_stations fallback sev_flag st' ers)"

text \<open>The function: the first two arguments are its environment (the ISO parser and
  what reading \<^verbatim>\<open>line-colors.csv\<close> gives), the others are those of the source.\<close>

definition get_departures_from_xml ::
  "(string \<Rightarrow> datetime option) \<Rightarrow> exn + row list \<Rightarrow> string \<Rightarrow> tree \<Rightarrow> Station list \<Rightarrow>
   string \<times> string \<Rightarrow> bool \<Rightarrow> exn + Departure list" where
  "get_departures_from_xml fromisoformat csv ref t all_stations fallback sev_flag =
     (case decode_loop fromisoformat csv ref all_stations fallback sev_flag
             \<lparr>line_number_var = None, binding_var = None, departures = []\<rparr> t of
        Inl e \<Rightarrow> Inl e
      | Inr st \<Rightarrow> Inr (departures st))"


section \<open>Per-window selection (helper\_functions.py, get\_departures\_for\_window)\<close>

definition get_departures_for_window :: "Window \<Rightarrow> Departure list \<Rightarrow> Departure list" where
  "get_departures_for_window window all_departures =
     filter (\<lambda>departure. station departure = window_station window) all_departures"


section \<open>Display hand-off (gui.py, Window.refresh)\<close>

text \<open>The sort key of \<^verbatim>\<open>refresh\<close>: the estimated time if there is one, else the
  planned time.\<close>

definition sort_time :: "Departure \<Rightarrow> datetime" where
  "sort_time x = (case estimated_time x of None \<Rightarrow> planned_time x | Some t \<Rightarrow> t)"

text \<open>
  \<^verbatim>\<open>DepartureEntry.update\<close>. The background comes from the colour dictionary (a missing
  key raises KeyError); the time text is computed from the clock, so the function from
  the shown instant to that text is a parameter; the icon is recorded by the arguments
  of \<^verbatim>\<open>get_icon\<close> that come from the departure. Configuring a label that \<^verbatim>\<open>clear\<close> has
  destroyed is an error of the toolkit (TclError). An entry is returned as far as it was
  changed when an exception leaves the method.
\<close>

definition update ::
  "(string \<rightharpoonup> string) \<Rightarrow> (datetime \<Rightarrow> string) \<Rightarrow> DepartureEntry \<Rightarrow> Departure \<Rightarrow> nat \<Rightarrow>
   DepartureEntry \<times> exn option" where
  "update cols time_str entry departure index =
     (case cols (if index mod 2 \<noteq> 0 then ''departure_entry_darker''
                 else ''departure_entry_lighter'') of
        None \<Rightarrow> (entry, Some KeyError)
      | Some background \<Rightarrow>
         (let entry1 = entry\<lparr>frame_background := background\<rparr>;
              time_shown = sort_time departure;
              text0 = line_number departure;
              text1 = (if text0 = ''InterCityExpress'' then ''ICE'' else text0);
              text2 = (if text1 = ''InterCity'' then ''IC'' else text1)
          in if line_icon_label entry1 = Destroyed then (entry1, Some TclError)
             else
               (entry1\<lparr>line_icon_label :=
                          Image (mode departure) text2 (background_color departure)
                            (text_color departure),
                        destination_var := destination departure,
                        platform_var :=
                          (case platform departure of None \<Rightarrow> ''N/A'' | Some p \<Rightarrow> p),
                        time_text_var := time_str time_shown\<rparr>, None)))"

text \<open>\<^verbatim>\<open>DepartureEntry.clear\<close>: the texts are blanked first, the background is looked up
  last, under the keys \<^verbatim>\<open>DepartureEntry_darker\<close> and \<^verbatim>\<open>DepartureEntry_lighter\<close>.\<close>

definition clear ::
  "(string \<rightharpoonup> string) \<Rightarrow> DepartureEntry \<Rightarrow> nat \<Rightarrow> DepartureEntry \<times> exn option" where
  "clear cols entry index =
     (let entry1 = entry\<lparr>line_icon_label := Destroyed, destination_var := Some [],
                           platform_var := [], time_text_var := []\<rparr>
      in case cols (if index mod 2 \<noteq> 0 then ''DepartureEntry_darker''
                    else ''DepartureEntry_lighter'') of
           None \<Rightarrow> (entry1, Some KeyError)
         | Some background \<Rightarrow> (entry1\<lparr>frame_background := background\<rparr>, None))"

text \<open>
  The first loop of \<^verbatim>\<open>refresh\<close>, \<^verbatim>\<open>for i in range(len(departures))\<close> with its
  \<^verbatim>\<open>break\<close>. The argument \<open>i\<close> is the index of the head of the remaining departures;
  the result holds the entries, the value of \<open>i\<close> after the loop and the exception that
  left it, if any. Over no departure at all \<open>i\<close> is never bound.
\<close>

fun update_entries ::
  "(string \<rightharpoonup> string) \<Rightarrow> (datetime \<Rightarrow> string) \<Rightarrow> nat \<Rightarrow> nat \<Rightarrow> Departure list \<Rightarrow>
   DepartureEntry list \<Rightarrow> DepartureEntry list \<times> nat \<times> exn option" where
  "update_entries cols time_str n i [] es = (es, i, Some UnboundLocalError)"
| "update_entries cols time_str n i (d # ds) es =
     (if i + 1 < length es then
        (case update cols time_str (es ! (i + 1)) d i of
           (e', Some x) \<Rightarrow> (es[i + 1 := e'], i, Some x)
         | (e', None) \<Rightarrow>
            (if i + 1 \<ge> n \<or> ds = [] then (es[i + 1 := e'], i, None)
             else update_entries cols time_str n (i + 1) ds (es[i + 1 := e'])))
      else (es, i, Some IndexError))"

text \<open>The second loop, over \<^verbatim>\<open>self.departure_entries[i + 2:]\<close>.\<close>

fun clear_entries ::
  "(string \<rightharpoonup> string) \<Rightarrow> nat \<Rightarrow> DepartureEntry list \<Rightarrow> DepartureEntry list \<times> exn option" where
  "clear_entries cols i [] = ([], None)"
| "clear_entries cols i (e # es) =
     (case clear cols e i of
        (e', Some x) \<Rightarrow> (e' # es, Some x)
      | (e', None) \<Rightarrow> (case clear_entries cols i es of (es', r) \<Rightarrow> (e' # es', r)))"

text \<open>
  \<^verbatim>\<open>Window.refresh\<close>. \<^verbatim>\<open>list.sort(key=...)\<close> is the stable ascending sort of the
  language, \<open>sort_key\<close> here; it sorts the list of the caller, so the result gives that
  list as it is after the call, the window, and the exception that left the method, if
  any. The only caller passes a list, never \<^verbatim>\<open>None\<close>.
\<close>

definition refresh ::
  "(datetime \<Rightarrow> string) \<Rightarrow> Window \<Rightarrow> Departure list \<Rightarrow> Departure list \<times> Window \<times> exn option" where
  "refresh time_str self deps =
     (let sorted_deps = sort_key sort_time deps
      in if length sorted_deps < 1 then (sorted_deps, self, None)
         else
           (case update_entries (colors self) time_str (number_of_departure_entries self) 0
                   sorted_deps (departure_entries self) of
              (es, i, Some x) \<Rightarrow> (sorted_deps, self\<lparr>departure_entries := es\<rparr>, Some x)
            | (es, i, None) \<Rightarrow>
               (case clear_entries (colors self) i (drop (i + 2) es) of
                  (rest, r) \<Rightarrow>
                    (sorted_deps, self\<lparr>departure_entries := take (i + 2) es @ rest\<rparr>, r))))"


section \<open>Refresh cycle (main.py, update\_departure\_entries)\<close>

text \<open>
  The loop over the stop points. The call of the service client \<^verbatim>\<open>kvv.get\<close> stands
  before the \<^verbatim>\<open>try\<close>. The client (module \<^verbatim>\<open>KVV\<close>, which is not among the sources
  read here) and the XML parser \<^verbatim>\<open>ET.fromstring\<close> are parameters, each giving its
  value or the exception it raises; the type of a response is left open. The fallback
  colours and the flag are read from the configuration, which has been checked for
  them at start-up, and are parameters too. What the \<^verbatim>\<open>except\<close> clause logs is
  collected in a list.
\<close>

fun fetch_all ::
  "(string \<Rightarrow> nat \<Rightarrow> exn + 'r) \<Rightarrow> ('r \<Rightarrow> exn + tree) \<Rightarrow> (string \<Rightarrow> datetime option) \<Rightarrow>
   exn + row list \<Rightarrow> Station list \<Rightarrow> string \<times> string \<Rightarrow> bool \<Rightarrow>
   Departure list \<Rightarrow> exn list \<Rightarrow> StopPoint list \<Rightarrow> Departure list \<times> exn list \<times> exn option" where
  "fetch_all kvv_get fromstring fromisoformat csv stations fallback sev_flag
       all_departures logged [] = (all_departures, logged, None)"
| "fetch_all kvv_get fromstring fromisoformat csv stations fallback sev_flag
       all_departures logged (sp # sps) =
     (case kvv_get (stop_point_ref sp) 10 of
        Inl e \<Rightarrow> (all_departures, logged, Some e)
      | Inr response \<Rightarrow>
         (case (case fromstring response of
                  Inl e \<Rightarrow> Inl e
                | Inr t \<Rightarrow>
                    get_departures_from_xml fromisoformat csv (stop_point_ref sp) t stations
                      fallback sev_flag) of
            Inl e \<Rightarrow>
              fetch_all kvv_get fromstring fromisoformat csv stations fallback sev_flag
                all_departures (logged @ [e]) sps
          | Inr ds \<Rightarrow>
              fetch_all kvv_get fromstring fromisoformat csv stations fallback sev_flag
                (all_departures @ ds) logged sps))"

text \<open>The loop over the windows; nothing is caught here.\<close>

fun refresh_windows ::
  "(datetime \<Rightarrow> string) \<Rightarrow> Departure list \<Rightarrow> Window list \<Rightarrow> Window list \<times> exn option" where
  "refresh_windows time_str all_departures [] = ([], None)"
| "refresh_windows time_str all_departures (w # ws) =
     (case refresh time_str w (get_departures_for_window w all_departures) of
        (_, w', Some x) \<Rightarrow> (w' # ws, Some x)
      | (_, w', None) \<Rightarrow>
         (case refresh_windows time_str all_departures ws of (ws', r) \<Rightarrow> (w' # ws', r)))"

text \<open>
  One run of \<^verbatim>\<open>update_departure_entries\<close>: the departures gathered, the windows after
  it, what was logged, whether the last statement \<^verbatim>\<open>root.after(30000, ...)\<close> was
  reached, and the exception that left the function, if any.
\<close>

record cycle =
  gathered :: "Departure list"
  windows_after :: "Window list"
  logged_errors :: "exn list"
  rearmed :: bool
  raised :: "exn option"

definition update_departure_entries ::
  "(string \<Rightarrow> nat \<Rightarrow> exn + 'r) \<Rightarrow> ('r \<Rightarrow> exn + tree) \<Rightarrow> (string \<Rightarrow> datetime option) \<Rightarrow>
   exn + row list \<Rightarrow> (datetime \<Rightarrow> string) \<Rightarrow> Station list \<Rightarrow> string \<times> string \<Rightarrow> bool \<Rightarrow>
   StopPoint list \<Rightarrow> Window list \<Rightarrow> cycle" where
  "update_departure_entries kvv_get fromstring fromisoformat csv time_str stations fallback
       sev_flag all_stop_points windows =
     (case fetch_all kvv_get fromstring fromisoformat csv stations fallback sev_flag [] []
             all_stop_points of
        (all_departures, logged, Some e) \<Rightarrow>
          \<lparr>gathered = all_departures, windows_after = windows, logged_errors = logged,
           rearmed = False, raised = Some e\<rparr>
      | (all_departures, logged, None) \<Rightarrow>
         (case refresh_windows time_str all_departures windows of
            (ws, Some e) \<Rightarrow>
              \<lparr>gathered = all_departures, windows_after = ws, logged_errors = logged,
               rearmed = False, raised = Some e\<rparr>
          | (ws, None) \<Rightarrow>
              \<lparr>gathered = all_departures, windows_after = ws, logged_errors = logged,
               rearmed = True, raised = None\<rparr>))"


section \<open>Example data\<close>

text \<open>
  A small configuration used to run the functions on concrete inputs: two stations that
  share the stop point reference \<open>A1\<close> (once with a prefix configured, once without),
  three windows, a colour table, two response documents and the service parameters.
\<close>

definition sp_a1 :: StopPoint where
  "sp_a1 = \<lparr>stop_point_ref = ''A1'', prefix = Some ''Gleis'', suffix = None\<rparr>"

definition sp_a2 :: StopPoint where
  "sp_a2 = \<lparr>stop_point_ref = ''A2'', prefix = None, suffix = None\<rparr>"

definition sp_a1_bare :: StopPoint where
  "sp_a1_bare = \<lparr>stop_point_ref = ''A1'', prefix = None, suffix = None\<rparr>"

definition station_hbf :: Station where
  "station_hbf = \<lparr>name = ''Hbf'', lead_time_minutes = 5, stop_points = [sp_a1, sp_a2]\<rparr>"

definition station_platz :: Station where
  "station_platz = \<lparr>name = ''Platz'', lead_time_minutes = 2, stop_points = [sp_a1_bare]\<rparr>"

definition config_colors :: "string \<rightharpoonup> string" where
  "config_colors =
     [''departure_entry_lighter'' \<mapsto> ''#FFFFFF'', ''departure_entry_darker'' \<mapsto> ''#EEEEEE'']"

definition blank_entry :: DepartureEntry where
  "blank_entry = \<lparr>frame_background = ''#FFFFFF'', line_icon_label = NoImage,
                   destination_var = Some [], platform_var = [], time_text_var = []\<rparr>"

definition stale_entry :: DepartureEntry where
  "stale_entry = \<lparr>frame_background = ''#FFFFFF'',
                   line_icon_label = Image (Some ''tram'') ''2'' ''#112233'' ''#FFFFFF'',
                   destination_var = Some ''Wolfartsweier'', platform_var = ''3'',
                   time_text_var = ''4 min''\<rparr>"

definition window_hbf :: Window where
  "window_hbf = \<lparr>window_station = station_hbf, number_of_departure_entries = 2,
                  departure_entries = [blank_entry, stale_entry, blank_entry],
                  colors = config_colors\<rparr>"

definition window_platz :: Window where
  "window_platz = \<lparr>window_station = station_platz, number_of_departure_entries = 2,
                    departure_entries = [blank_entry, blank_entry, blank_entry],
                    colors = config_colors\<rparr>"

definition color_table :: "row list" where
  "color_table =
     [\<lparr>shortOperatorName = Some ''DB'', lineName = Some ''SEV12'',
       backgroundColor = ''#000000'', textColor = ''#FFFFFF''\<rparr>,
      \<lparr>shortOperatorName = Some ''KVV'', lineName = Some ''12'',
       backgroundColor = ''#112233'', textColor = ''#FFFFFF''\<rparr>,
      \<lparr>shortOperatorName = Some ''vbk-kvv'', lineName = Some ''ICE123'',
       backgroundColor = ''#445566'', textColor = ''#000000''\<rparr>]"

definition fallback_pair :: "string \<times> string" where
  "fallback_pair = (''#AAAAAA'', ''#111111'')"

text \<open>The ISO parser on the two time stamps of the examples, 10:02 and 10:05 of one day, in
  seconds of the day.\<close>

definition iso_parser :: "string \<Rightarrow> datetime option" where
  "iso_parser s =
     (if s = ''2024-05-01T10:02:00+02:00'' then Some 36120
      else if s = ''2024-05-01T10:05:00+02:00'' then Some 36300 else None)"

definition clock_text :: "datetime \<Rightarrow> string" where
  "clock_text t = (if t < 36180 then ''Jetzt'' else ''5 min'')"

definition event_sev :: stop_event_result where
  "event_sev =
     \<lparr>StopPointRef = Element (Some ''A1:1''),
      StopEvent = Some
        \<lparr>TimetabledTime = Element (Some ''2024-05-01T10:05:00+02:00''), EstimatedTime = NotFound,
         PublishedLineName = Element (Some ''Bus SEV 12''),
         DestinationText = Element (Some ''Durlach''), PlannedBay = Element (Some ''Gleis 3''),
         PtMode = Element (Some ''bus'')\<rparr>\<rparr>"

definition event_no_time :: stop_event_result where
  "event_no_time =
     \<lparr>StopPointRef = Element (Some ''A1:2''),
      StopEvent = Some
        \<lparr>TimetabledTime = NotFound, EstimatedTime = NotFound,
         PublishedLineName = Element (Some ''Tram 2''),
         DestinationText = Element (Some ''Wolfartsweier''), PlannedBay = NotFound,
         PtMode = Element (Some ''tram'')\<rparr>\<rparr>"

definition departure_sev :: Departure where
  "departure_sev =
     \<lparr>line_number = ''12'', destination = Some ''Durlach'', platform = Some ''3'',
      station = station_hbf, stop_point = sp_a1, mode = Some ''bus'',
      background_color = ''#112233'', text_color = ''#FFFFFF'',
      planned_time = 36300, estimated_time = None\<rparr>"

definition departure_1005 :: Departure where
  "departure_1005 =
     \<lparr>line_number = ''2'', destination = Some ''Wolfartsweier'', platform = None,
      station = station_hbf, stop_point = sp_a2, mode = Some ''tram'',
      background_color = ''#AAAAAA'', text_color = ''#111111'',
      planned_time = 36300, estimated_time = Some 36300\<rparr>"

definition departure_1002 :: Departure where
  "departure_1002 =
     \<lparr>line_number = ''5'', destination = Some ''Rheinhafen'', platform = None,
      station = station_hbf, stop_point = sp_a1, mode = Some ''tram'',
      background_color = ''#AAAAAA'', text_color = ''#111111'',
      planned_time = 36120, estimated_time = None\<rparr>"

definition departure_late :: Departure where
  "departure_late =
     \<lparr>line_number = ''4'', destination = Some ''Waldstadt'', platform = None,
      station = station_hbf, stop_point = sp_a2, mode = Some ''tram'',
      background_color = ''#AAAAAA'', text_color = ''#111111'',
      planned_time = 36000, estimated_time = Some 36600\<rparr>"

definition departure_elsewhere :: Departure where
  "departure_elsewhere =
     \<lparr>line_number = ''S1'', destination = Some ''Hochstetten'', platform = None,
      station = station_platz, stop_point = sp_a1_bare, mode = Some ''tram'',
      background_color = ''#AAAAAA'', text_color = ''#111111'',
      planned_time = 36000, estimated_time = None\<rparr>"

text \<open>A service client that cannot reach the service for \<open>A1\<close> and answers with an empty
  document for every other stop point; the parser is the identity on such answers.\<close>

definition failing_client :: "string \<Rightarrow> nat \<Rightarrow> exn + tree" where
  "failing_client ref number_of_results = (if ref = ''A1'' then Inl ConnectionError else Inr [])"

definition parsed :: "tree \<Rightarrow> exn + tree" where
  "parsed response = Inr response"


section \<open>Evaluation of the examples\<close>

lemma example_stop_points:
  "get_all_used_stoppoints [window_hbf, window_platz] = [sp_a1, sp_a2, sp_a1_bare]"
  by code_simp

lemma example_shared_station:
  "get_all_used_stoppoints [window_hbf, window_hbf] = [sp_a1, sp_a2]"
  by code_simp

lemma example_decode_one:
  "get_departures_from_xml iso_parser (Inr color_table) ''A1'' [event_sev] [station_hbf]
     fallback_pair True = Inr [departure_sev]"
  by code_simp

lemma example_decode_two:
  "get_departures_from_xml iso_parser (Inr color_table) ''A1'' [event_sev, event_no_time]
     [station_hbf] fallback_pair True = Inl AttributeError"
  by code_simp

lemma example_sorted:
  "fst (refresh clock_text window_hbf
         (get_departures_for_window window_hbf
            [departure_late, departure_1005, departure_elsewhere, departure_1002])) =
   [departure_1002, departure_1005, departure_late]"
  by code_simp

lemma example_sort_in_place:
  "fst (refresh clock_text window_hbf [departure_late, departure_1002]) =
   [departure_1002, departure_late]"
  by code_simp

lemma example_cycle_raised:
  "raised (update_departure_entries failing_client parsed iso_parser (Inr color_table)
            clock_text [station_hbf, station_platz] fallback_pair True [sp_a1, sp_a2]
            [window_hbf]) = Some ConnectionError"
  by code_simp

lemma example_colors:
  "get_line_color ''SEV12'' (Inr color_table) fallback_pair True = Inr (''#112233'', ''#FFFFFF'')"
  "get_line_color ''SEV12'' (Inr color_table) fallback_pair False = Inr fallback_pair"
  "get_line_color ''ICE123'' (Inr color_table) fallback_pair False = Inr (''#EC0016'', ''#FFFFFF'')"
  "get_line_color ''FLX12'' (Inl FileNotFoundError) fallback_pair True =
     Inr (''#97d700'', ''#FFFFFF'')"
  by code_simp+

lemma example_is_kvv:
  "filter is_kvv color_table = tl color_table"
  by code_simp

lemma example_line_number:
  "assign_line_number None (split_sp ''Bus SEV 12'') = Some ''12''"
  "split_sp ''Bus SEV 12'' = [''Bus'', ''SEV'', ''12'']"
  by code_simp+


section \<open>Refresh cycle: a failing fetch\<close>

lemma fetch_all_raises:
  assumes "sp \<in> set sps" "kvv_get (stop_point_ref sp) 10 = Inl e"
  shows "\<exists>ds lg e'. fetch_all kvv_get fromstring fromiso csv stations fb flag acc lg0 sps =
           (ds, lg, Some e')"
  using assms(1)
proof (induction sps arbitrary: acc lg0)
  case Nil
  then show ?case by simp
next
  case (Cons x xs)
  show ?case
  proof (cases "kvv_get (stop_point_ref x) 10")
    case (Inl e1)
    then show ?thesis by simp
  next
    case (Inr response)
    with assms(2) have "x \<noteq> sp" by auto
    with Cons.prems have "sp \<in> set xs" by simp
    from Cons.IH[OF this] Inr show ?thesis
      by (simp split: sum.splits)
  qed
qed

text \<open>What the \<^verbatim>\<open>try\<close> block does catch: a response that does not parse, or whose
  decoding raises, is logged and the loop goes on with the next stop point.\<close>

lemma fetch_all_logs_and_continues:
  assumes "kvv_get (stop_point_ref sp) 10 = Inr response"
      and "fromstring response = Inl e \<or>
           (\<exists>t. fromstring response = Inr t \<and>
                get_departures_from_xml fromiso csv (stop_point_ref sp) t stations fb flag = Inl e)"
  shows "fetch_all kvv_get fromstring fromiso csv stations fb flag acc lg0 (sp # sps) =
         fetch_all kvv_get fromstring fromiso csv stations fb flag acc (lg0 @ [e]) sps"
  using assms by auto

text \<open>
  C1. The statement is that a transport failure while fetching one stop point is caught
  and the cycle goes on. The call of the service client stands before the \<^verbatim>\<open>try\<close>
  block, so this is what happens instead: if the client raises for any stop point of
  the list, the exception leaves \<^verbatim>\<open>update_departure_entries\<close>; no window is refreshed
  and the timer is not armed again.
\<close>

theorem C1_fetch_failure_leaves_cycle:
  assumes "sp \<in> set all_stop_points" "kvv_get (stop_point_ref sp) 10 = Inl e"
  shows "\<exists>e'. raised (update_departure_entries kvv_get fromstring fromiso csv time_str
                  stations fb flag all_stop_points windows) = Some e' \<and>
         \<not> rearmed (update_departure_entries kvv_get fromstring fromiso csv time_str
                  stations fb flag all_stop_points windows) \<and>
         windows_after (update_departure_entries kvv_get fromstring fromiso csv time_str
                  stations fb flag all_stop_points windows) = windows"
proof -
  have "\<exists>ds lg e'. fetch_all kvv_get fromstring fromiso csv stations fb flag [] []
           all_stop_points = (ds, lg, Some e')"
    using assms by (rule fetch_all_raises)
  then obtain ds lg e' where
    "fetch_all kvv_get fromstring fromiso csv stations fb flag [] [] all_stop_points =
       (ds, lg, Some e')" by blast
  then show ?thesis by (simp add: update_departure_entries_def)
qed

text \<open>The service is unreachable for the first of two stop points: the second one is
  never fetched, the window keeps its old content, the cycle is not started again.\<close>

theorem C1_fetch_failure_witness:
  "raised (update_departure_entries failing_client parsed iso_parser (Inr color_table)
            clock_text [station_hbf, station_platz] fallback_pair True [sp_a1, sp_a2]
            [window_hbf]) = Some ConnectionError \<and>
   \<not> rearmed (update_departure_entries failing_client parsed iso_parser (Inr color_table)
            clock_text [station_hbf, station_platz] fallback_pair True [sp_a1, sp_a2]
            [window_hbf]) \<and>
   windows_after (update_departure_entries failing_client parsed iso_parser (Inr color_table)
            clock_text [station_hbf, station_platz] fallback_pair True [sp_a1, sp_a2]
            [window_hbf]) = [window_hbf]"
proof -
  have m: "sp_a1 \<in> set [sp_a1, sp_a2]" by simp
  have f: "failing_client (stop_point_ref sp_a1) 10 = Inl ConnectionError"
    by (simp add: failing_client_def sp_a1_def)
  have "\<exists>e'. raised (update_departure_entries failing_client parsed iso_parser
            (Inr color_table) clock_text [station_hbf, station_platz] fallback_pair True
            [sp_a1, sp_a2] [window_hbf]) = Some e' \<and>
         \<not> rearmed (update_departure_entries failing_client parsed iso_parser
            (Inr color_table) clock_text [station_hbf, station_platz] fallback_pair True
            [sp_a1, sp_a2] [window_hbf]) \<and>
         windows_after (update_departure_entries failing_client parsed iso_parser
            (Inr color_table) clock_text [station_hbf, station_platz] fallback_pair True
            [sp_a1, sp_a2] [window_hbf]) = [window_hbf]"
    using m f by (rule C1_fetch_failure_leaves_cycle)
  with example_cycle_raised show ?thesis by blast
qed


section \<open>Line labels\<close>

lemma split_sp_not_Nil: "split_sp s \<noteq> []"
  by (induction s) (auto split: list.splits)

text \<open>The published line name always has a last word, so the variable is always
  assigned by the second \<^verbatim>\<open>if\<close>.\<close>

lemma assign_line_number_bound: "\<exists>l. assign_line_number before (split_sp s) = Some l"
  using split_sp_not_Nil[of s] by (auto simp: assign_line_number_def Let_def)

text \<open>
  C2. The statement is that a label whose second word is \<open>SEV\<close> is normalised to \<open>SEV\<close>
  followed by the last word, before the other rules. The second \<^verbatim>\<open>if\<close> is not an
  \<^verbatim>\<open>elif\<close> and assigns in each of its branches, so the value of the \<open>SEV\<close> branch is
  always overwritten: a label with second word \<open>SEV\<close> and an ordinary last word gets
  the last word alone.
\<close>

theorem C2_sev_label_overwritten:
  assumes "1 < length words" "words ! 1 = ''SEV''"
      and "last words \<noteq> ''InterCityExpress''" "last words \<noteq> ''InterCity''"
          "last words \<noteq> ''Flixbus''"
  shows "assign_line_number before words = Some (last words)"
  using assms by (auto simp: assign_line_number_def)

theorem C2_sev_label_witness:
  "split_sp ''Bus SEV 12'' = [''Bus'', ''SEV'', ''12''] \<and>
   assign_line_number None (split_sp ''Bus SEV 12'') = Some ''12''"
  using C2_sev_label_overwritten[of "split_sp ''Bus SEV 12''" None]
  by (simp add: example_line_number)



section \<open>Decoder: the stop point of a departure\<close>

text \<open>The inner scan only ever binds the station it runs over and one of its stop
  points with the requested reference.\<close>

lemma scan_stop_points_consistent:
  assumes "scan_stop_points ref st b sps = Some (s, p)"
      and "\<And>s p. b = Some (s, p) \<Longrightarrow>
             s \<in> A \<and> p \<in> set (stop_points s) \<and> stop_point_ref p = ref"
      and "st \<in> A" "set sps \<subseteq> set (stop_points st)"
  shows "s \<in> A \<and> p \<in> set (stop_points s) \<and> stop_point_ref p = ref"
  using assms
proof (induction sps arbitrary: b)
  case Nil
  then show ?case by simp
next
  case (Cons sp sps)
  show ?case
  proof (rule Cons.IH)
    show "scan_stop_points ref st (if stop_point_ref sp = ref then Some (st, sp) else b) sps =
          Some (s, p)"
      using Cons.prems(1) by simp
    show "set sps \<subseteq> set (stop_points st)" using Cons.prems(4) by simp
    show "st \<in> A" by fact
    fix s' p'
    assume "(if stop_point_ref sp = ref then Some (st, sp) else b) = Some (s', p')"
    then show "s' \<in> A \<and> p' \<in> set (stop_points s') \<and> stop_point_ref p' = ref"
      using Cons.prems(2,3,4) by (auto split: if_splits)
  qed
qed

lemma scan_stations_consistent:
  assumes "scan_stations ref b sts = Some (s, p)"
      and "\<And>s p. b = Some (s, p) \<Longrightarrow>
             s \<in> A \<and> p \<in> set (stop_points s) \<and> stop_point_ref p = ref"
      and "set sts \<subseteq> A"
  shows "s \<in> A \<and> p \<in> set (stop_points s) \<and> stop_point_ref p = ref"
  using assms
proof (induction sts arbitrary: b)
  case Nil
  then show ?case by simp
next
  case (Cons st sts)
  show ?case
  proof (rule Cons.IH)
    show "scan_stations ref (scan_stop_points ref st b (stop_points st)) sts = Some (s, p)"
      using Cons.prems(1) by simp
    show "set sts \<subseteq> A" using Cons.prems(3) by simp
    fix s' p'
    assume a: "scan_stop_points ref st b (stop_points st) = Some (s', p')"
    show "s' \<in> A \<and> p' \<in> set (stop_points s') \<and> stop_point_ref p' = ref"
    proof (rule scan_stop_points_consistent[OF a])
      show "st \<in> A" using Cons.prems(3) by simp
      show "set (stop_points st) \<subseteq> set (stop_points st)" by simp
    qed (use Cons.prems(2) in blast)
  qed
qed

text \<open>Without a stop point of the requested reference the scan changes nothing.\<close>

lemma scan_stop_points_unchanged:
  "\<forall>sp\<in>set sps. stop_point_ref sp \<noteq> ref \<Longrightarrow> scan_stop_points ref st b sps = b"
  by (induction sps arbitrary: b) auto

lemma scan_stations_unchanged:
  "\<forall>st\<in>set sts. \<forall>sp\<in>set (stop_points st). stop_point_ref sp \<noteq> ref \<Longrightarrow>
   scan_stations ref b sts = b"
  by (induction sts arbitrary: b) (auto simp: scan_stop_points_unchanged)

text \<open>One record that does not raise is either skipped or appends one departure, whose
  station and stop point are what the scan has bound.\<close>

lemma decode_event_Inr:
  assumes "decode_event fromiso csv ref all fb flag st er = Inr st'"
  shows "st' = st \<or>
     (\<exists>d s p. binding_var st' = Some (s, p) \<and>
        scan_stations ref (binding_var st) all = Some (s, p) \<and>
        departures st' = departures st @ [d] \<and> station d = s \<and> stop_point d = p)"
  using assms unfolding decode_event_def Let_def
  by (auto split: sum.splits option.splits if_splits prod.splits)

lemma decode_event_consistent:
  assumes ev: "decode_event fromiso csv ref all fb flag st er = Inr st'"
      and b: "\<And>s p. binding_var st = Some (s, p) \<Longrightarrow>
                s \<in> set all \<and> p \<in> set (stop_points s) \<and> stop_point_ref p = ref"
      and ds: "\<And>d. d \<in> set (departures st) \<Longrightarrow>
                station d \<in> set all \<and> stop_point d \<in> set (stop_points (station d)) \<and>
                stop_point_ref (stop_point d) = ref"
  shows "(\<forall>s p. binding_var st' = Some (s, p) \<longrightarrow>
                s \<in> set all \<and> p \<in> set (stop_points s) \<and> stop_point_ref p = ref) \<and>
         (\<forall>d. d \<in> set (departures st') \<longrightarrow>
                station d \<in> set all \<and> stop_point d \<in> set (stop_points (station d)) \<and>
                stop_point_ref (stop_point d) = ref)"
proof -
  from decode_event_Inr[OF ev] consider "st' = st"
    | d s p where "binding_var st' = Some (s, p)"
        "scan_stations ref (binding_var st) all = Some (s, p)"
        "departures st' = departures st @ [d]" "station d = s" "stop_point d = p"
    by blast
  then show ?thesis
  proof cases
    case 1
    with b ds show ?thesis by blast
  next
    case 2
    have sp: "s \<in> set all \<and> p \<in> set (stop_points s) \<and> stop_point_ref p = ref"
      by (rule scan_stations_consistent[OF 2(2)]) (use b in auto)
    with 2 ds show ?thesis by auto
  qed
qed

lemma decode_loop_consistent:
  assumes "decode_loop fromiso csv ref all fb flag st t = Inr st'"
      and "\<And>s p. binding_var st = Some (s, p) \<Longrightarrow>
                s \<in> set all \<and> p \<in> set (stop_points s) \<and> stop_point_ref p = ref"
      and "\<And>d. d \<in> set (departures st) \<Longrightarrow>
                station d \<in> set all \<and> stop_point d \<in> set (stop_points (station d)) \<and>
                stop_point_ref (stop_point d) = ref"
  shows "\<forall>d. d \<in> set (departures st') \<longrightarrow>
                station d \<in> set all \<and> stop_point d \<in> set (stop_points (station d)) \<and>
                stop_point_ref (stop_point d) = ref"
  using assms
proof (induction t arbitrary: st)
  case Nil
  then show ?case by simp
next
  case (Cons er ers)
  from Cons.prems(1) obtain st1 where
    e: "decode_event fromiso csv ref all fb flag st er = Inr st1" and
    l: "decode_loop fromiso csv ref all fb flag st1 ers = Inr st'"
    by (auto split: sum.splits)
  from decode_event_consistent[OF e Cons.prems(2,3)]
  show ?case by (intro Cons.IH[OF l]) blast+
qed

text \<open>
  C4. Every departure that the decoder returns refers to a station of the list it was
  given, to a stop point in the list of that station, and this stop point has exactly
  the requested reference.
\<close>

theorem C4_referential_consistency:
  assumes "get_departures_from_xml fromiso csv ref t all fb flag = Inr ds" and "d \<in> set ds"
  shows "station d \<in> set all \<and> stop_point d \<in> set (stop_points (station d)) \<and>
         stop_point_ref (stop_point d) = ref"
proof -
  from assms(1) obtain st' where
    l: "decode_loop fromiso csv ref all fb flag
          \<lparr>line_number_var = None, binding_var = None, departures = []\<rparr> t = Inr st'"
    and ds: "ds = departures st'"
    by (auto simp: get_departures_from_xml_def split: sum.splits)
  from decode_loop_consistent[OF l] assms(2) ds show ?thesis by simp
qed

theorem C4_referential_consistency_witness:
  "get_departures_from_xml iso_parser (Inr color_table) ''A1'' [event_sev] [station_hbf]
     fallback_pair True = Inr [departure_sev] \<and>
   station departure_sev \<in> set [station_hbf] \<and>
   stop_point departure_sev \<in> set (stop_points (station departure_sev)) \<and>
   stop_point_ref (stop_point departure_sev) = ''A1''"
proof -
  have m: "departure_sev \<in> set [departure_sev]" by simp
  from C4_referential_consistency[OF example_decode_one m] example_decode_one
  show ?thesis by blast
qed


section \<open>Decoder: a record without a required field\<close>

lemma decode_event_keeps_unbound:
  assumes "decode_event fromiso csv ref all fb flag st er = Inr st'"
      and "\<forall>s\<in>set all. \<forall>p\<in>set (stop_points s). stop_point_ref p \<noteq> ref"
      and "binding_var st = None"
  shows "st' = st"
  using decode_event_Inr[OF assms(1)] assms(2,3)
  by (auto simp: scan_stations_unchanged)

lemma decode_event_missing_field:
  assumes "StopPointRef er = Element (Some r)" "startswith r ref" "StopEvent er = Some ev"
      and "TimetabledTime ev = NotFound \<or> DestinationText ev = NotFound \<or>
           (binding_var st = None \<and>
            (\<forall>s\<in>set all. \<forall>p\<in>set (stop_points s). stop_point_ref p \<noteq> ref))"
  shows "\<exists>e. decode_event fromiso csv ref all fb flag st er = Inl e"
proof (cases "decode_event fromiso csv ref all fb flag st er")
  case (Inl e)
  then show ?thesis by blast
next
  case (Inr st')
  from Inr assms(1-3) have
    "TimetabledTime ev \<noteq> NotFound" "DestinationText ev \<noteq> NotFound"
    "scan_stations ref (binding_var st) all \<noteq> None"
    unfolding decode_event_def Let_def time_of_def
    by (auto split: sum.splits option.splits if_splits prod.splits)
  with assms(4) show ?thesis by (auto simp: scan_stations_unchanged)
qed

lemma decode_loop_missing_field:
  assumes "er \<in> set t"
      and "StopPointRef er = Element (Some r)" "startswith r ref" "StopEvent er = Some ev"
      and "TimetabledTime ev = NotFound \<or> DestinationText ev = NotFound \<or>
           (\<forall>s\<in>set all. \<forall>p\<in>set (stop_points s). stop_point_ref p \<noteq> ref)"
      and "(\<forall>s\<in>set all. \<forall>p\<in>set (stop_points s). stop_point_ref p \<noteq> ref) \<longrightarrow>
           binding_var st = None"
  shows "\<exists>e. decode_loop fromiso csv ref all fb flag st t = Inl e"
  using assms(1,6)
proof (induction t arbitrary: st)
  case Nil
  then show ?case by simp
next
  case (Cons x xs)
  show ?case
  proof (cases "decode_event fromiso csv ref all fb flag st x")
    case (Inl e)
    then show ?thesis by simp
  next
    case (Inr st1)
    have x: "x \<noteq> er"
    proof
      assume "x = er"
      with decode_event_missing_field[OF assms(2-4), of st all fromiso csv fb flag]
        assms(5) Cons.prems(2) Inr
      show False by auto
    qed
    with Cons.prems(1) have m: "er \<in> set xs" by simp
    have k: "(\<forall>s\<in>set all. \<forall>p\<in>set (stop_points s). stop_point_ref p \<noteq> ref) \<longrightarrow>
           binding_var st1 = None"
    proof
      assume n: "\<forall>s\<in>set all. \<forall>p\<in>set (stop_points s). stop_point_ref p \<noteq> ref"
      with Cons.prems(2) have "binding_var st = None" by simp
      from decode_event_keeps_unbound[OF Inr n this] this show "binding_var st1 = None"
        by simp
    qed
    from Cons.IH[OF m k] Inr show ?thesis by simp
  qed
qed

text \<open>A document without result nodes gives no departure and no error, also for a
  reference that no stop point has.\<close>

lemma decode_empty_document:
  "get_departures_from_xml fromiso csv ref [] all fb flag = Inr []"
  by (simp add: get_departures_from_xml_def)

text \<open>
  C3. The statement is that a record without a required field is dropped alone and the
  departures of the other records are still returned. On the two-record document of the
  examples, whose first record decodes on its own and whose second record has no planned
  time, the call raises and returns no departure at all.
\<close>

theorem C3_missing_field_counterexample:
  "get_departures_from_xml iso_parser (Inr color_table) ''A1'' [event_sev] [station_hbf]
     fallback_pair True = Inr [departure_sev] \<and>
   get_departures_from_xml iso_parser (Inr color_table) ''A1'' [event_sev, event_no_time]
     [station_hbf] fallback_pair True = Inl AttributeError"
  by (simp add: example_decode_one example_decode_two)

text \<open>
  C3, as the code has it. Nothing is caught per record. Take any record of the document
  that has a stop event and whose stop-point identifier starts with the requested
  reference. If this record has no planned-time element or no destination element, or
  if no stop point of the station list has the requested reference, the whole call
  raises: no departure of the document is returned, whatever the other records hold.
  (A document without such a record raises nothing, see \<open>decode_empty_document\<close>.)
\<close>

theorem C3_missing_field_fails_document:
  assumes "er \<in> set t"
      and "StopPointRef er = Element (Some r)" "startswith r ref" "StopEvent er = Some ev"
      and "TimetabledTime ev = NotFound \<or> DestinationText ev = NotFound \<or>
           (\<forall>s\<in>set all. \<forall>p\<in>set (stop_points s). stop_point_ref p \<noteq> ref)"
  shows "\<exists>e. get_departures_from_xml fromiso csv ref t all fb flag = Inl e"
proof -
  have "\<exists>e. decode_loop fromiso csv ref all fb flag
          \<lparr>line_number_var = None, binding_var = None, departures = []\<rparr> t = Inl e"
    using assms by (rule decode_loop_missing_field) simp
  then show ?thesis by (auto simp: get_departures_from_xml_def)
qed

theorem C3_missing_field_witness:
  "event_no_time \<in> set [event_sev, event_no_time] \<and>
   StopPointRef event_no_time = Element (Some ''A1:2'') \<and> startswith ''A1:2'' ''A1'' \<and>
   TimetabledTime (the (StopEvent event_no_time)) = NotFound \<and>
   (\<exists>e. get_departures_from_xml iso_parser (Inr color_table) ''A1''
          [event_sev, event_no_time] [station_hbf] fallback_pair True = Inl e)"
proof -
  have a: "event_no_time \<in> set [event_sev, event_no_time]" by simp
  have b: "StopPointRef event_no_time = Element (Some ''A1:2'')"
    by (simp add: event_no_time_def)
  have c: "startswith ''A1:2'' ''A1''" by (simp add: startswith_def)
  have d: "StopEvent event_no_time = Some (the (StopEvent event_no_time))"
    by (simp add: event_no_time_def)
  have e: "TimetabledTime (the (StopEvent event_no_time)) = NotFound"
    by (simp add: event_no_time_def)
  have "\<exists>e. get_departures_from_xml iso_parser (Inr color_table) ''A1''
          [event_sev, event_no_time] [station_hbf] fallback_pair True = Inl e"
    using a b c d by (rule C3_missing_field_fails_document) (simp add: e)
  with a b c e show ?thesis by blast
qed



section \<open>Stop-point deduplication\<close>

lemma remdups_append_remdups: "remdups (xs @ remdups ys) = remdups (xs @ ys)"
  by (induction xs) auto

lemma remdups_append_member: "x \<in> set ys \<Longrightarrow> remdups (xs @ x # ys) = remdups (xs @ ys)"
  by (induction xs) auto

text \<open>Appending what is not yet there keeps the first occurrence of every stop point:
  on reversed lists this is \<open>remdups\<close>, which keeps the last one.\<close>

lemma add_stop_points_first_seen:
  "distinct acc \<Longrightarrow> add_stop_points acc xs = rev (remdups (rev (acc @ xs)))"
proof (induction xs arbitrary: acc)
  case Nil
  then show ?case by (simp add: distinct_remdups_id)
next
  case (Cons sp sps)
  show ?case
  proof (cases "sp \<in> set acc")
    case True
    have "remdups (rev sps @ sp # rev acc) = remdups (rev sps @ rev acc)"
      using True by (simp add: remdups_append_member)
    with True Cons show ?thesis by simp
  next
    case False
    with Cons.prems have "distinct (acc @ [sp])" by simp
    from Cons.IH[OF this] False show ?thesis by simp
  qed
qed

lemma distinct_add_stop_points: "distinct acc \<Longrightarrow> distinct (add_stop_points acc xs)"
  by (simp add: add_stop_points_first_seen)

lemma collect_stop_points_first_seen:
  "distinct acc \<Longrightarrow>
   collect_stop_points acc sts = rev (remdups (rev (acc @ concat (map stop_points sts))))"
proof (induction sts arbitrary: acc)
  case Nil
  then show ?case by (simp add: distinct_remdups_id)
next
  case (Cons st sts)
  have d: "distinct (add_stop_points acc (stop_points st))"
    using Cons.prems by (rule distinct_add_stop_points)
  have "collect_stop_points acc (st # sts) =
        rev (remdups (rev (add_stop_points acc (stop_points st) @ concat (map stop_points sts))))"
    using Cons.IH[OF d] by simp
  also have "\<dots> = rev (remdups (rev (acc @ concat (map stop_points (st # sts)))))"
    using Cons.prems
    by (simp add: add_stop_points_first_seen remdups_append_remdups)
  finally show ?case .
qed

lemma get_all_used_stoppoints_first_seen:
  "get_all_used_stoppoints windows =
   rev (remdups (rev (concat (map (\<lambda>w. stop_points (window_station w)) windows))))"
  by (simp add: get_all_used_stoppoints_def collect_stop_points_first_seen comp_def)

text \<open>
  C5. The statement is that stop points are deduplicated by their reference alone, so
  that the size of the result is the number of distinct references. The membership test
  compares all three fields: the two windows of the examples use the reference \<open>A1\<close>
  once with a prefix and once without, and both stop points are kept.
\<close>

theorem C5_dedup_counterexample:
  "get_all_used_stoppoints [window_hbf, window_platz] = [sp_a1, sp_a2, sp_a1_bare] \<and>
   stop_point_ref sp_a1 = stop_point_ref sp_a1_bare \<and>
   length (get_all_used_stoppoints [window_hbf, window_platz]) = 3 \<and>
   card (stop_point_ref ` set (get_all_used_stoppoints [window_hbf, window_platz])) = 2"
proof -
  have "stop_point_ref sp_a1 = stop_point_ref sp_a1_bare"
    by (simp add: sp_a1_def sp_a1_bare_def)
  moreover have "card (stop_point_ref ` set [sp_a1, sp_a2, sp_a1_bare]) = 2"
    by code_simp
  ultimately show ?thesis by (simp add: example_stop_points)
qed

text \<open>
  C5, as the code has it. The result lists the stop points of the windows' stations
  without repetition, where two stop points are the same if reference, prefix and
  suffix are the same, each at the place of its first occurrence; its size is the
  number of distinct stop points. Whenever distinct stop points also have distinct
  references, this is the number of distinct references.
\<close>

theorem C5_dedup_first_seen:
  "get_all_used_stoppoints windows =
     rev (remdups (rev (concat (map (\<lambda>w. stop_points (window_station w)) windows)))) \<and>
   distinct (get_all_used_stoppoints windows) \<and>
   set (get_all_used_stoppoints windows) =
     set (concat (map (\<lambda>w. stop_points (window_station w)) windows)) \<and>
   length (get_all_used_stoppoints windows) =
     card (set (concat (map (\<lambda>w. stop_points (window_station w)) windows))) \<and>
   (inj_on stop_point_ref (set (concat (map (\<lambda>w. stop_points (window_station w)) windows)))
    \<longrightarrow> length (get_all_used_stoppoints windows) =
         card (stop_point_ref `
                set (concat (map (\<lambda>w. stop_points (window_station w)) windows))))"
proof -
  let ?all = "concat (map (\<lambda>w. stop_points (window_station w)) windows)"
  have eq: "get_all_used_stoppoints windows = rev (remdups (rev ?all))"
    by (rule get_all_used_stoppoints_first_seen)
  have d: "distinct (get_all_used_stoppoints windows)" by (simp add: eq)
  have s: "set (get_all_used_stoppoints windows) = set ?all" by (simp add: eq)
  have l: "length (get_all_used_stoppoints windows) = card (set ?all)"
    using distinct_card[OF d] s by simp
  have "inj_on stop_point_ref (set ?all) \<longrightarrow>
        length (get_all_used_stoppoints windows) = card (stop_point_ref ` set ?all)"
    using l by (simp add: card_image)
  with eq d s l show ?thesis by blast
qed

text \<open>Two windows on the same station: its two stop points are listed once.\<close>

theorem C5_dedup_witness:
  "inj_on stop_point_ref (set (concat (map (\<lambda>w. stop_points (window_station w))
                                  [window_hbf, window_hbf]))) \<and>
   get_all_used_stoppoints [window_hbf, window_hbf] = [sp_a1, sp_a2] \<and>
   length (get_all_used_stoppoints [window_hbf, window_hbf]) =
     card (stop_point_ref ` set (concat (map (\<lambda>w. stop_points (window_station w))
                                  [window_hbf, window_hbf])))"
proof -
  have i: "inj_on stop_point_ref (set (concat (map (\<lambda>w. stop_points (window_station w))
                                  [window_hbf, window_hbf])))"
    by (auto simp: inj_on_def window_hbf_def station_hbf_def sp_a1_def sp_a2_def)
  with C5_dedup_first_seen[of "[window_hbf, window_hbf]"] example_shared_station
  show ?thesis by blast
qed


section \<open>Line colours\<close>

lemma rows_named_Nil_iff:
  "rows_named l df = [] \<longleftrightarrow> (\<forall>r\<in>set df. lineName r \<noteq> Some l)"
  by (auto simp: rows_named_def filter_empty_conv)

lemma rows_named_Cons:
  assumes "rows_named l df = r # rs"
  shows "r \<in> set df \<and> lineName r = Some l"
proof -
  from assms have "r \<in> set (rows_named l df)" by simp
  then show ?thesis by (simp add: rows_named_def)
qed

lemma FLX_not_IC:
  "startswith l ''FLX'' \<Longrightarrow> \<not> startswith l ''IC'' \<and> \<not> startswith l ''ICE''"
  by (cases l) (auto simp: startswith_def)

text \<open>
  C8. A line number that starts with \<open>ICE\<close> or \<open>IC\<close> gets the fixed pair of the
  high-speed trains, one that starts with \<open>FLX\<close> the fixed pair of the coaches,
  whatever the table holds (even if it cannot be read), whatever the fallback pair and
  whatever the flag.
\<close>

theorem C8_fixed_overrides:
  "(startswith l ''ICE'' \<or> startswith l ''IC'' \<longrightarrow>
      get_line_color l csv fb flag = Inr (''#EC0016'', ''#FFFFFF'')) \<and>
   (startswith l ''FLX'' \<longrightarrow>
      get_line_color l csv fb flag = Inr (''#97d700'', ''#FFFFFF''))"
proof (intro conjI impI)
  assume "startswith l ''ICE'' \<or> startswith l ''IC''"
  then show "get_line_color l csv fb flag = Inr (''#EC0016'', ''#FFFFFF'')"
    unfolding get_line_color_def by simp
next
  assume f: "startswith l ''FLX''"
  from FLX_not_IC[OF f] f show "get_line_color l csv fb flag = Inr (''#97d700'', ''#FFFFFF'')"
    unfolding get_line_color_def by simp
qed

theorem C8_fixed_overrides_witness:
  "startswith ''ICE123'' ''ICE'' \<and> startswith ''FLX12'' ''FLX'' \<and>
   get_line_color ''ICE123'' (Inr color_table) fallback_pair False =
     Inr (''#EC0016'', ''#FFFFFF'') \<and>
   get_line_color ''FLX12'' (Inl FileNotFoundError) fallback_pair True =
     Inr (''#97d700'', ''#FFFFFF'')"
  using C8_fixed_overrides[of "''ICE123''" "Inr color_table" fallback_pair False]
        C8_fixed_overrides[of "''FLX12''" "Inl FileNotFoundError" fallback_pair True]
  by (simp add: startswith_def)

text \<open>
  C9. For a line number outside the overrides with no row of its name among the rows of
  the local operator: if the flag is set, the line number starts with \<open>SEV\<close> and some
  row of the operator has the name without these three letters, the colours of such a
  row are returned; if the flag is not set, or the line number does not start with
  \<open>SEV\<close>, or no row has the shortened name either, the fallback pair is returned as it
  is.
\<close>

theorem C9_sev_retry_and_fallback:
  assumes "\<not> startswith l ''ICE''" "\<not> startswith l ''IC''" "\<not> startswith l ''FLX''"
      and nomatch: "\<forall>r\<in>set df. is_kvv r \<longrightarrow> lineName r \<noteq> Some l"
  shows "(flag \<and> startswith l ''SEV'' \<and>
           (\<exists>r\<in>set df. is_kvv r \<and> lineName r = Some (drop 3 l)) \<longrightarrow>
           (\<exists>r\<in>set df. is_kvv r \<and> lineName r = Some (drop 3 l) \<and>
              get_line_color l (Inr df) fb flag = Inr (backgroundColor r, textColor r))) \<and>
         (\<not> flag \<or> \<not> startswith l ''SEV'' \<or>
           (\<forall>r\<in>set df. is_kvv r \<longrightarrow> lineName r \<noteq> Some (drop 3 l)) \<longrightarrow>
           get_line_color l (Inr df) fb flag = Inr fb)"
proof -
  have e: "rows_named l (filter is_kvv df) = []"
    using nomatch by (simp add: rows_named_Nil_iff)
  have sev: "startswith l ''SEV'' \<longleftrightarrow> take 3 l = ''SEV''"
    by (simp add: startswith_def numeral_3_eq_3)
  show ?thesis
  proof (intro conjI impI)
    assume a: "flag \<and> startswith l ''SEV'' \<and>
           (\<exists>r\<in>set df. is_kvv r \<and> lineName r = Some (drop 3 l))"
    then have "rows_named (drop 3 l) (filter is_kvv df) \<noteq> []"
      by (auto simp: rows_named_Nil_iff)
    then obtain r rs where c: "rows_named (drop 3 l) (filter is_kvv df) = r # rs"
      by (cases "rows_named (drop 3 l) (filter is_kvv df)") auto
    from rows_named_Cons[OF c] have r: "r \<in> set df" "is_kvv r" "lineName r = Some (drop 3 l)"
      by auto
    have "get_line_color l (Inr df) fb flag = Inr (backgroundColor r, textColor r)"
      using assms(1-3) e c a sev by (simp add: get_line_color_def)
    with r show "\<exists>r\<in>set df. is_kvv r \<and> lineName r = Some (drop 3 l) \<and>
              get_line_color l (Inr df) fb flag = Inr (backgroundColor r, textColor r)"
      by blast
  next
    assume b: "\<not> flag \<or> \<not> startswith l ''SEV'' \<or>
           (\<forall>r\<in>set df. is_kvv r \<longrightarrow> lineName r \<noteq> Some (drop 3 l))"
    show "get_line_color l (Inr df) fb flag = Inr fb"
    proof (cases "flag \<and> startswith l ''SEV''")
      case True
      with b have "rows_named (drop 3 l) (filter is_kvv df) = []"
        by (auto simp: rows_named_Nil_iff)
      with True e assms(1-3) sev show ?thesis by (simp add: get_line_color_def)
    next
      case False
      with e assms(1-3) sev show ?thesis by (auto simp: get_line_color_def)
    qed
  qed
qed

text \<open>In the table of the examples the only row named \<open>SEV12\<close> is of another operator,
  and the local operator has a row named \<open>12\<close>.\<close>

theorem C9_sev_retry_witness:
  "get_line_color ''SEV12'' (Inr color_table) fallback_pair True =
     Inr (''#112233'', ''#FFFFFF'') \<and>
   get_line_color ''SEV12'' (Inr color_table) fallback_pair False = Inr fallback_pair"
proof -
  have k: "filter is_kvv color_table = tl color_table" by (rule example_is_kvv)
  have n: "\<forall>r\<in>set color_table. is_kvv r \<longrightarrow> lineName r \<noteq> Some ''SEV12''"
  proof
    fix r assume "r \<in> set color_table"
    show "is_kvv r \<longrightarrow> lineName r \<noteq> Some ''SEV12''"
    proof
      assume "is_kvv r"
      with \<open>r \<in> set color_table\<close> have "r \<in> set (filter is_kvv color_table)" by simp
      then show "lineName r \<noteq> Some ''SEV12''"
        unfolding k by (auto simp: color_table_def)
    qed
  qed
  have s: "\<not> startswith ''SEV12'' ''ICE''" "\<not> startswith ''SEV12'' ''IC''"
          "\<not> startswith ''SEV12'' ''FLX''"
    by (simp_all add: startswith_def)
  from C9_sev_retry_and_fallback[OF s n, of False fallback_pair]
  have "get_line_color ''SEV12'' (Inr color_table) fallback_pair False = Inr fallback_pair"
    by simp
  with example_colors(1) show ?thesis by simp
qed


section \<open>Display hand-off\<close>

text \<open>Whatever happens to the entries, the list of the caller is sorted first.\<close>

lemma fst_refresh: "fst (refresh time_str self deps) = sort_key sort_time deps"
  by (simp add: refresh_def Let_def split: prod.splits option.splits)

text \<open>The sort key, written out.\<close>

lemma sort_time_eq:
  "sort_time = (\<lambda>d. case estimated_time d of None \<Rightarrow> planned_time d | Some t \<Rightarrow> t)"
  by (simp add: sort_time_def fun_eq_iff)

text \<open>
  C6. For a window and the list of all departures, the list the window works on holds
  exactly the departures of the window's station, in ascending order of the estimated
  time where there is one and of the planned time otherwise, and departures with the
  same such time keep the order they had in the list of all departures.
\<close>

theorem C6_filtered_and_sorted:
  "set (fst (refresh time_str w (get_departures_for_window w all_departures))) =
     {d \<in> set all_departures. station d = window_station w} \<and>
   mset (fst (refresh time_str w (get_departures_for_window w all_departures))) =
     mset (filter (\<lambda>d. station d = window_station w) all_departures) \<and>
   sorted (map (\<lambda>d. case estimated_time d of None \<Rightarrow> planned_time d | Some t \<Rightarrow> t)
     (fst (refresh time_str w (get_departures_for_window w all_departures)))) \<and>
   (\<forall>k. filter (\<lambda>d. (case estimated_time d of None \<Rightarrow> planned_time d | Some t \<Rightarrow> t) = k)
          (fst (refresh time_str w (get_departures_for_window w all_departures))) =
        filter (\<lambda>d. (case estimated_time d of None \<Rightarrow> planned_time d | Some t \<Rightarrow> t) = k)
          (filter (\<lambda>d. station d = window_station w) all_departures))"
  unfolding fst_refresh sort_time_eq
  by (simp add: get_departures_for_window_def sort_key_stable)

text \<open>
  The departure without estimated time and planned for 10:02 comes before the one
  estimated for 10:05, and the departure planned for 10:00 but estimated for 10:10
  comes last, although it is planned first; the departure of the other station is not
  handed over.
\<close>

theorem C6_filtered_and_sorted_witness:
  "estimated_time departure_1002 = None \<and> planned_time departure_1002 = 36120 \<and>
   estimated_time departure_1005 = Some 36300 \<and>
   planned_time departure_late = 36000 \<and> estimated_time departure_late = Some 36600 \<and>
   fst (refresh clock_text window_hbf
         (get_departures_for_window window_hbf
            [departure_late, departure_1005, departure_elsewhere, departure_1002])) =
     [departure_1002, departure_1005, departure_late] \<and>
   sorted (map (\<lambda>d. case estimated_time d of None \<Rightarrow> planned_time d | Some t \<Rightarrow> t)
     (fst (refresh clock_text window_hbf
         (get_departures_for_window window_hbf
            [departure_late, departure_1005, departure_elsewhere, departure_1002]))))"
proof -
  have "estimated_time departure_1002 = None \<and> planned_time departure_1002 = 36120 \<and>
        estimated_time departure_1005 = Some 36300 \<and>
        planned_time departure_late = 36000 \<and> estimated_time departure_late = Some 36600"
    by (simp add: departure_1002_def departure_1005_def departure_late_def)
  with C6_filtered_and_sorted[of clock_text window_hbf
         "[departure_late, departure_1005, departure_elsewhere, departure_1002]"]
       example_sorted
  show ?thesis by blast
qed

text \<open>
  C7. The statement includes that with no departure at all every slot is cleared. With
  an empty list \<^verbatim>\<open>refresh\<close> returns right after sorting: the window is exactly as it
  was, so a slot that showed a departure of the previous cycle still shows it.
\<close>

theorem C7_no_departures_nothing_cleared:
  "refresh time_str self [] = ([], self, None)"
  by (simp add: refresh_def)

theorem C7_no_departures_witness:
  "refresh clock_text window_hbf [] = ([], window_hbf, None) \<and>
   departure_entries window_hbf ! 1 = stale_entry \<and>
   destination_var stale_entry = Some ''Wolfartsweier''"
  using C7_no_departures_nothing_cleared[of clock_text window_hbf]
  by (simp add: window_hbf_def stale_entry_def)

text \<open>
  C10. \<^verbatim>\<open>refresh\<close> sorts the list of its caller in place: after the call, also one that
  an exception has left, that list is in ascending order of the estimated time where
  there is one and of the planned time otherwise, and it holds the same departures as
  before, each as often as before.
\<close>

theorem C10_sorts_in_place:
  "sorted (map (\<lambda>d. case estimated_time d of None \<Rightarrow> planned_time d | Some t \<Rightarrow> t)
     (fst (refresh time_str self deps))) \<and>
   mset (fst (refresh time_str self deps)) = mset deps \<and>
   length (fst (refresh time_str self deps)) = length deps"
  unfolding fst_refresh sort_time_eq by simp

text \<open>The list goes in with the departure planned for 10:00 first; this one is estimated
  for 10:10, so it comes out second.\<close>

theorem C10_sorts_in_place_witness:
  "planned_time departure_late < planned_time departure_1002 \<and>
   fst (refresh clock_text window_hbf [departure_late, departure_1002]) =
     [departure_1002, departure_late] \<and>
   mset (fst (refresh clock_text window_hbf [departure_late, departure_1002])) =
     mset [departure_late, departure_1002]"
proof -
  have "planned_time departure_late < planned_time departure_1002"
    by (simp add: departure_late_def departure_1002_def)
  with C10_sorts_in_place[of clock_text window_hbf "[departure_late, departure_1002]"]
       example_sort_in_place
  show ?thesis by blast
qed

end
